theory Spec2Isabelle
  imports Complex_Main "HOL-Library.List_Lexorder" "HOL-Library.Char_ord"
begin

section \<open>CymbalFlix Discover: the data-access layer\<close>

text \<open>
  The application keeps no state of its own: every function of
  \<^verbatim>\<open>utils/queries.py\<close> opens a connection, runs parameterised SQL against the
  tables \<^verbatim>\<open>movies\<close>, \<^verbatim>\<open>genres\<close>, \<^verbatim>\<open>movie_genres\<close>,
  \<^verbatim>\<open>ratings\<close>, \<^verbatim>\<open>users\<close> and \<^verbatim>\<open>links\<close>, and shapes the rows into
  dicts. The database is modelled as a record of row lists (a table is a bag with a scan
  order), each SQL statement as the list expression it denotes, and a function that writes
  returns the new database next to its result.

  The schema is not part of the repository. Nullable columns are those the code itself
  treats as nullable (\<^verbatim>\<open>year\<close>, \<^verbatim>\<open>summary\<close>, \<^verbatim>\<open>summary_embedding\<close>,
  \<^verbatim>\<open>rated_at\<close>, \<^verbatim>\<open>imdb_id\<close>, \<^verbatim>\<open>tmdb_id\<close>); no key or
  uniqueness constraint is assumed, so joins and groupings are those of plain SQL.
  Numeric values (\<^verbatim>\<open>rating\<close>, averages, distances) are exact reals.
\<close>

subsection \<open>Tables\<close>

type_synonym vector = "real list"

record timestamp =
  ts_year :: int
  ts_rest :: nat

record movie =
  movie_id :: int
  title :: string
  year :: "int option"
  summary :: "string option"
  summary_embedding :: "vector option"

record genre =
  genre_id :: int
  genre_name :: string

record movie_genre =
  mg_movie_id :: int
  mg_genre_id :: int

record rating_row =
  rating_id :: int
  user_id :: int
  r_movie_id :: int
  rating :: real
  rated_at :: "timestamp option"

record link =
  l_movie_id :: int
  imdb_id :: "string option"
  tmdb_id :: "string option"

text \<open>
  \<open>next_rating_id\<close> is the value the engine's sequence gives the \<^verbatim>\<open>rating_id\<close>
  of the next inserted row; \<open>current_timestamp\<close> is the engine's clock.
\<close>

record database =
  movies :: "movie list"
  genres :: "genre list"
  movie_genres :: "movie_genre list"
  ratings :: "rating_row list"
  users :: "int list"
  links :: "link list"
  next_rating_id :: int
  current_timestamp :: timestamp

subsection \<open>SQL building blocks\<close>

text \<open>
  PostgreSQL rejects a negative \<^verbatim>\<open>LIMIT\<close> or \<^verbatim>\<open>OFFSET\<close>; the driver raises and
  the function returns nothing.
\<close>

datatype db_error = NegativeLimit | NegativeOffset

definition sql_limit :: "int \<Rightarrow> 'a list \<Rightarrow> db_error + 'a list" where
  "sql_limit n rows = (if n < 0 then Inl NegativeLimit else Inr (take (nat n) rows))"

definition sql_limit_offset :: "int \<Rightarrow> int \<Rightarrow> 'a list \<Rightarrow> db_error + 'a list" where
  "sql_limit_offset n k rows =
     (if n < 0 then Inl NegativeLimit
      else if k < 0 then Inl NegativeOffset
      else Inr (take (nat n) (drop (nat k) rows)))"

text \<open>\<^verbatim>\<open>a LEFT JOIN b ON on\<close>: a left row without a partner is kept once, with NULLs.\<close>

definition left_join :: "'a list \<Rightarrow> ('a \<Rightarrow> 'b \<Rightarrow> bool) \<Rightarrow> 'b list \<Rightarrow> ('a \<times> 'b option) list" where
  "left_join xs on ys =
     concat (map (\<lambda>x. case filter (on x) ys of
                          [] \<Rightarrow> [(x, None)]
                        | zs \<Rightarrow> map (\<lambda>y. (x, Some y)) zs) xs)"

text \<open>\<^verbatim>\<open>GROUP BY key\<close>: one group per distinct key, holding the rows with that key.\<close>

definition group_by :: "('r \<Rightarrow> 'k) \<Rightarrow> 'r list \<Rightarrow> ('k \<times> 'r list) list" where
  "group_by key rows = map (\<lambda>k. (k, filter (\<lambda>r. key r = k) rows)) (remdups (map key rows))"

text \<open>
  \<^verbatim>\<open>ARRAY_AGG(DISTINCT x ORDER BY x)\<close>: the distinct values in ascending order, NULL last.
  The collation's order of strings is taken to be the lexicographic order of their characters.
\<close>

definition array_agg_distinct :: "string option list \<Rightarrow> string option list" where
  "array_agg_distinct xs =
     map Some (sort (remdups (List.map_filter (\<lambda>x. x) xs)))
     @ (if None \<in> set xs then [None] else [])"

text \<open>\<^verbatim>\<open>AVG\<close> and \<^verbatim>\<open>COUNT\<close> skip NULLs; \<^verbatim>\<open>AVG\<close> of no value is NULL.\<close>

definition sql_avg :: "real option list \<Rightarrow> real option" where
  "sql_avg xs =
     (let vs = List.map_filter (\<lambda>x. x) xs
      in if vs = [] then None else Some (sum_list vs / real (length vs)))"

definition sql_count :: "'a option list \<Rightarrow> int" where
  "sql_count xs = int (length (List.map_filter (\<lambda>x. x) xs))"

definition coalesce :: "'a option \<Rightarrow> 'a \<Rightarrow> 'a" where
  "coalesce x d = (case x of None \<Rightarrow> d | Some v \<Rightarrow> v)"

text \<open>\<^verbatim>\<open>ROUND(x::numeric, d)\<close> rounds half away from zero.\<close>

definition pg_round :: "real \<Rightarrow> nat \<Rightarrow> real" where
  "pg_round x d =
     (if 0 \<le> x then real_of_int \<lfloor>x * 10 ^ d + 1 / 2\<rfloor> / 10 ^ d
      else - (real_of_int \<lfloor>- x * 10 ^ d + 1 / 2\<rfloor> / 10 ^ d))"

text \<open>
  \<^verbatim>\<open>text LIKE pattern\<close> with the default escape character: \<^verbatim>\<open>%\<close> matches any
  sequence, \<^verbatim>\<open>_\<close> any one character, a backslash makes the next pattern character
  literal. (A pattern that ends in a lone backslash is an error of the engine; the patterns
  built here end in \<^verbatim>\<open>%\<close>, so a final backslash always has a successor.)
  \<^verbatim>\<open>ILIKE\<close> compares case-insensitively; case folding is that of ASCII letters.
\<close>

fun like_match :: "string \<Rightarrow> string \<Rightarrow> bool" where
  "like_match [] s = (s = [])"
| "like_match (p # ps) [] = (p = CHR ''%'' \<and> like_match ps [])"
| "like_match (p # ps) (c # s) =
     (if p = CHR ''%'' then like_match ps (c # s) \<or> like_match (p # ps) s
      else if p = CHR 0x5C then (case ps of [] \<Rightarrow> False | e # ps' \<Rightarrow> c = e \<and> like_match ps' s)
      else if p = CHR ''_'' then like_match ps s
      else c = p \<and> like_match ps s)"

text \<open>The characters that are syntax in a \<^verbatim>\<open>LIKE\<close> pattern.\<close>

definition like_meta :: "char set" where
  "like_meta = {CHR ''%'', CHR ''_'', CHR 0x5C}"

definition lower_char :: "char \<Rightarrow> char" where
  "lower_char c =
     (case map_of (zip ''ABCDEFGHIJKLMNOPQRSTUVWXYZ'' ''abcdefghijklmnopqrstuvwxyz'') c of
        None \<Rightarrow> c
      | Some l \<Rightarrow> l)"

definition lower :: "string \<Rightarrow> string" where
  "lower s = map lower_char s"

definition ilike :: "string \<Rightarrow> string \<Rightarrow> bool" where
  "ilike s pattern \<longleftrightarrow> like_match (lower pattern) (lower s)"

text \<open>A NULL operand makes the comparison NULL, which a \<^verbatim>\<open>WHERE\<close> treats as false.\<close>

definition ilike_null :: "string option \<Rightarrow> string \<Rightarrow> bool" where
  "ilike_null s pattern = (case s of None \<Rightarrow> False | Some t \<Rightarrow> ilike t pattern)"

text \<open>
  Python's \<^verbatim>\<open>row.genres if row.genres and row.genres[0] else []\<close>: the array is kept
  when it is non-empty and its first element is neither \<^verbatim>\<open>None\<close> nor the empty string.
\<close>

definition py_genres :: "string option list \<Rightarrow> string option list" where
  "py_genres gs =
     (case gs of
        [] \<Rightarrow> []
      | g # _ \<Rightarrow> (case g of None \<Rightarrow> [] | Some n \<Rightarrow> if n = [] then [] else gs))"

text \<open>
  The join every listing query starts from:
  \<^verbatim>\<open>movies m LEFT JOIN movie_genres mg ON m.movie_id = mg.movie_id
  LEFT JOIN genres g ON mg.genre_id = g.genre_id\<close>.
\<close>

type_synonym mg_row = "movie \<times> movie_genre option"
type_synonym mgg_row = "(movie \<times> movie_genre option) \<times> genre option"

definition movies_mg :: "database \<Rightarrow> mg_row list" where
  "movies_mg db = left_join (movies db) (\<lambda>m mg. movie_id m = mg_movie_id mg) (movie_genres db)"

definition on_genre :: "'a \<times> movie_genre option \<Rightarrow> genre \<Rightarrow> bool" where
  "on_genre x g = (case snd x of None \<Rightarrow> False | Some mg \<Rightarrow> mg_genre_id mg = genre_id g)"

definition movies_mg_g :: "database \<Rightarrow> mgg_row list" where
  "movies_mg_g db = left_join (movies_mg db) on_genre (genres db)"

definition g_name :: "'a \<times> genre option \<Rightarrow> string option" where
  "g_name x = map_option genre_name (snd x)"

subsection \<open>\<^verbatim>\<open>search_movies_semantic\<close>\<close>

text \<open>
  The SQL function \<^verbatim>\<open>embedding('gemini-embedding-001', :query)\<close> and the cosine
  distance operator \<^verbatim>\<open><=>\<close> belong to the engine; they are the parameters
  \<open>embedding\<close> and \<open>distance\<close>.
\<close>

record semantic_hit =
  s_movie_id :: int
  s_title :: string
  s_year :: "int option"
  s_summary :: "string option"
  s_similarity :: real
  s_genres :: "string option list"

type_synonym semantic_key = "int \<times> string \<times> int option \<times> string option \<times> vector"

definition semantic_rows :: "database \<Rightarrow> (semantic_key \<times> string option) list" where
  "semantic_rows db =
     concat (map (\<lambda>x. case summary_embedding (fst (fst x)) of
                          None \<Rightarrow> []
                        | Some e \<Rightarrow>
                            [((movie_id (fst (fst x)), title (fst (fst x)), year (fst (fst x)),
                               summary (fst (fst x)), e), g_name x)])
                 (movies_mg_g db))"

definition semantic_distance :: "(vector \<Rightarrow> vector \<Rightarrow> real) \<Rightarrow> vector \<Rightarrow>
    semantic_key \<times> 'a \<Rightarrow> real" where
  "semantic_distance distance q grp = (case fst grp of (i, t, y, s, e) \<Rightarrow> distance e q)"

definition shape_semantic :: "(vector \<Rightarrow> vector \<Rightarrow> real) \<Rightarrow> vector \<Rightarrow>
    semantic_key \<times> (semantic_key \<times> string option) list \<Rightarrow> semantic_hit" where
  "shape_semantic distance q grp =
     (case fst grp of (i, t, y, s, e) \<Rightarrow>
        (let similarity = pg_round (1 - semantic_distance distance q grp) 3
         in \<lparr>s_movie_id = i, s_title = t, s_year = y, s_summary = s,
             s_similarity = (if similarity \<noteq> 0 then similarity else 0),
             s_genres = py_genres (array_agg_distinct (map snd (snd grp)))\<rparr>))"

definition search_movies_semantic :: "(string \<Rightarrow> vector) \<Rightarrow> (vector \<Rightarrow> vector \<Rightarrow> real) \<Rightarrow>
    database \<Rightarrow> string \<Rightarrow> int \<Rightarrow> db_error + semantic_hit list" where
  "search_movies_semantic embedding distance db query limit =
     (let q = embedding query;
          groups = group_by fst (semantic_rows db);
          ordered = sort_key (semantic_distance distance q) groups
      in map_sum id (map (shape_semantic distance q)) (sql_limit limit ordered))"

subsection \<open>\<^verbatim>\<open>search_movies_keyword\<close>\<close>

record keyword_hit =
  k_movie_id :: int
  k_title :: string
  k_year :: "int option"
  k_summary :: "string option"
  k_genres :: "string option list"

type_synonym movie_key = "int \<times> string \<times> int option \<times> string option"

definition movie_key :: "movie \<Rightarrow> movie_key" where
  "movie_key m = (movie_id m, title m, year m, summary m)"

definition key_title :: "movie_key \<Rightarrow> string" where
  "key_title k = (case k of (i, t, y, s) \<Rightarrow> t)"

definition keyword_pattern :: "string \<Rightarrow> string" where
  "keyword_pattern query = ''%'' @ query @ ''%''"

definition keyword_where :: "string \<Rightarrow> movie \<Rightarrow> bool" where
  "keyword_where pattern m \<longleftrightarrow> ilike (title m) pattern \<or> ilike_null (summary m) pattern"

definition title_rank :: "string \<Rightarrow> movie_key \<times> 'a \<Rightarrow> nat" where
  "title_rank pattern grp = (if ilike (key_title (fst grp)) pattern then 0 else 1)"

definition shape_keyword :: "movie_key \<times> mgg_row list \<Rightarrow> keyword_hit" where
  "shape_keyword grp =
     (case fst grp of (i, t, y, s) \<Rightarrow>
        \<lparr>k_movie_id = i, k_title = t, k_year = y, k_summary = s,
         k_genres = py_genres (array_agg_distinct (map g_name (snd grp)))\<rparr>)"

text \<open>
  \<^verbatim>\<open>ORDER BY CASE WHEN m.title ILIKE :pattern THEN 0 ELSE 1 END, m.title\<close>: a stable
  sort by title followed by a stable sort by the rank.
\<close>

definition search_movies_keyword :: "database \<Rightarrow> string \<Rightarrow> int \<Rightarrow> db_error + keyword_hit list" where
  "search_movies_keyword db query limit =
     (let pattern = keyword_pattern query;
          rows = filter (\<lambda>x. keyword_where pattern (fst (fst x))) (movies_mg_g db);
          groups = group_by (\<lambda>x. movie_key (fst (fst x))) rows;
          ordered = sort_key (title_rank pattern) (sort_key (\<lambda>grp. key_title (fst grp)) groups)
      in map_sum id (map shape_keyword) (sql_limit limit ordered))"

subsection \<open>\<^verbatim>\<open>add_rating\<close>\<close>

text \<open>
  \<^verbatim>\<open>
  existing = conn.execute(check_sql, {...}).fetchone()
  if existing:
      UPDATE ratings SET rating = :rating, rated_at = CURRENT_TIMESTAMP
      WHERE user_id = :user_id AND movie_id = :movie_id
      RETURNING rating_id, rating, rated_at
      ...; row = result.fetchone(); action = "updated"
  else:
      INSERT INTO ratings (user_id, movie_id, rating, rated_at)
      VALUES (:user_id, :movie_id, :rating, CURRENT_TIMESTAMP)
      RETURNING rating_id, rating, rated_at
      ...; row = result.fetchone(); action = "created"
  \<close>
\<close>

record rating_result =
  success :: bool
  action :: string
  res_rating_id :: int
  res_user_id :: int
  res_movie_id :: int
  res_rating :: real
  res_rated_at :: "timestamp option"

definition fetchone :: "'a list \<Rightarrow> 'a option" where
  "fetchone rows = (case rows of [] \<Rightarrow> None | r # _ \<Rightarrow> Some r)"

definition rating_matches :: "int \<Rightarrow> int \<Rightarrow> rating_row \<Rightarrow> bool" where
  "rating_matches uid mid r \<longleftrightarrow> user_id r = uid \<and> r_movie_id r = mid"

definition check_sql :: "database \<Rightarrow> int \<Rightarrow> int \<Rightarrow> int list" where
  "check_sql db uid mid = map rating_id (filter (rating_matches uid mid) (ratings db))"

definition update_row :: "database \<Rightarrow> real \<Rightarrow> rating_row \<Rightarrow> rating_row" where
  "update_row db v r = r\<lparr>rating := v, rated_at := Some (current_timestamp db)\<rparr>"

definition update_sql :: "database \<Rightarrow> int \<Rightarrow> int \<Rightarrow> real \<Rightarrow> rating_row list \<times> database" where
  "update_sql db uid mid v =
     (map (update_row db v) (filter (rating_matches uid mid) (ratings db)),
      db\<lparr>ratings := map (\<lambda>r. if rating_matches uid mid r then update_row db v r else r)
                         (ratings db)\<rparr>)"

definition insert_sql :: "database \<Rightarrow> int \<Rightarrow> int \<Rightarrow> real \<Rightarrow> rating_row list \<times> database" where
  "insert_sql db uid mid v =
     (let row = \<lparr>rating_id = next_rating_id db, user_id = uid, r_movie_id = mid,
                 rating = v, rated_at = Some (current_timestamp db)\<rparr>
      in ([row], db\<lparr>ratings := ratings db @ [row], next_rating_id := next_rating_id db + 1\<rparr>))"

definition shape_rating :: "string \<Rightarrow> int \<Rightarrow> int \<Rightarrow> rating_row \<Rightarrow> rating_result" where
  "shape_rating act uid mid row =
     \<lparr>success = True, action = act, res_rating_id = rating_id row, res_user_id = uid,
      res_movie_id = mid, res_rating = rating row, res_rated_at = rated_at row\<rparr>"

text \<open>
  \<open>None\<close> stands for the \<^verbatim>\<open>AttributeError\<close> of \<^verbatim>\<open>row.rating_id\<close> on a
  \<^verbatim>\<open>fetchone()\<close> that found no row; the statement has been committed by then, so the
  database is the updated one.
\<close>

definition add_rating :: "database \<Rightarrow> int \<Rightarrow> int \<Rightarrow> real \<Rightarrow> rating_result option \<times> database" where
  "add_rating db uid mid v =
     (case fetchone (check_sql db uid mid) of
        Some existing \<Rightarrow>
          (let (result, db') = update_sql db uid mid v
           in (map_option (shape_rating ''updated'' uid mid) (fetchone result), db'))
      | None \<Rightarrow>
          (let (result, db') = insert_sql db uid mid v
           in (map_option (shape_rating ''created'' uid mid) (fetchone result), db')))"

subsection \<open>\<^verbatim>\<open>get_genres\<close>\<close>

definition get_genres :: "database \<Rightarrow> (int \<times> string) list" where
  "get_genres db = map (\<lambda>g. (genre_id g, genre_name g)) (sort_key genre_name (genres db))"

subsection \<open>\<^verbatim>\<open>browse_movies\<close>\<close>

record browse_hit =
  b_movie_id :: int
  b_title :: string
  b_year :: "int option"
  b_summary :: "string option"
  b_avg_rating :: real
  b_rating_count :: int
  b_genres :: "string option list"

record browse_result =
  b_movies :: "browse_hit list"
  total_count :: int

text \<open>
  Python's truth value of an \<^verbatim>\<open>Optional[int]\<close> or \<^verbatim>\<open>Optional[float]\<close>:
  \<^verbatim>\<open>None\<close> and zero are false.
\<close>

definition truthy :: "'a::zero option \<Rightarrow> bool" where
  "truthy x = (case x of None \<Rightarrow> False | Some v \<Rightarrow> v \<noteq> 0)"

text \<open>
  \<^verbatim>\<open>
  where_clauses = ["1=1"]
  if genre_id: where_clauses.append("mg.genre_id = :genre_id")
  if year_min: where_clauses.append("m.year >= :year_min")
  if year_max: where_clauses.append("m.year <= :year_max")
  where_sql = " AND ".join(where_clauses)
  \<close>
  A clause is a predicate on the columns of \<^verbatim>\<open>m\<close> and \<^verbatim>\<open>mg\<close>; a comparison with a
  NULL column is not true.
\<close>

definition genre_clause :: "int \<Rightarrow> mg_row \<Rightarrow> bool" where
  "genre_clause gid x = (case snd x of None \<Rightarrow> False | Some mg \<Rightarrow> mg_genre_id mg = gid)"

definition year_min_clause :: "int \<Rightarrow> mg_row \<Rightarrow> bool" where
  "year_min_clause lo x = (case year (fst x) of None \<Rightarrow> False | Some y \<Rightarrow> lo \<le> y)"

definition year_max_clause :: "int \<Rightarrow> mg_row \<Rightarrow> bool" where
  "year_max_clause hi x = (case year (fst x) of None \<Rightarrow> False | Some y \<Rightarrow> y \<le> hi)"

definition clause_if :: "int option \<Rightarrow> (int \<Rightarrow> mg_row \<Rightarrow> bool) \<Rightarrow> (mg_row \<Rightarrow> bool) list" where
  "clause_if param clause =
     (if truthy param then (case param of None \<Rightarrow> [] | Some v \<Rightarrow> [clause v]) else [])"

definition where_clauses :: "int option \<Rightarrow> int option \<Rightarrow> int option \<Rightarrow> (mg_row \<Rightarrow> bool) list" where
  "where_clauses gid year_min year_max =
     [\<lambda>x. True] @ clause_if gid genre_clause @ clause_if year_min year_min_clause
     @ clause_if year_max year_max_clause"

definition where_sql :: "(mg_row \<Rightarrow> bool) list \<Rightarrow> mg_row \<Rightarrow> bool" where
  "where_sql clauses x = list_all (\<lambda>c. c x) clauses"

definition on_movie_rating :: "movie \<Rightarrow> rating_row \<Rightarrow> bool" where
  "on_movie_rating m r \<longleftrightarrow> movie_id m = r_movie_id r"

definition avg_rating :: "rating_row option list \<Rightarrow> real" where
  "avg_rating rs = coalesce (sql_avg (map (map_option rating) rs)) 0"

definition rating_count :: "rating_row option list \<Rightarrow> int" where
  "rating_count rs = sql_count (map (map_option rating_id) rs)"

text \<open>A row of either main query before it is shaped: key, average, count, genre array.\<close>

type_synonym browse_row = "movie_key \<times> real \<times> int \<times> string option list"

text \<open>\<^verbatim>\<open>ORDER BY avg_rating DESC, rating_count DESC\<close>, as two stable sorts.\<close>

definition order_by_rating :: "browse_row list \<Rightarrow> browse_row list" where
  "order_by_rating rows =
     sort_key (\<lambda>r. - fst (snd r)) (sort_key (\<lambda>r. - fst (snd (snd r))) rows)"

text \<open>The \<^verbatim>\<open>else\<close> branch: one query over the four-way join.\<close>

definition plain_rows :: "database \<Rightarrow> (mg_row \<Rightarrow> bool) list \<Rightarrow> browse_row list" where
  "plain_rows db clauses =
     (let joined = left_join (movies_mg_g db) (\<lambda>x r. on_movie_rating (fst (fst x)) r) (ratings db);
          rows = filter (\<lambda>x. where_sql clauses (fst (fst x))) joined;
          groups = group_by (\<lambda>x. movie_key (fst (fst (fst x)))) rows
      in map (\<lambda>grp. (fst grp, avg_rating (map snd (snd grp)), rating_count (map snd (snd grp)),
                      array_agg_distinct (map (\<lambda>x. g_name (fst x)) (snd grp)))) groups)"

text \<open>
  The \<^verbatim>\<open>if rating_min\<close> branch: the CTE \<^verbatim>\<open>movie_ratings\<close> aggregates and filters
  by \<^verbatim>\<open>HAVING COALESCE(AVG(r.rating), 0) >= :rating_min\<close>, the outer query joins the
  genres back.
\<close>

definition movie_ratings :: "database \<Rightarrow> (mg_row \<Rightarrow> bool) list \<Rightarrow> real \<Rightarrow>
    (movie_key \<times> real \<times> int) list" where
  "movie_ratings db clauses rating_min =
     (let joined = left_join (movies_mg db) (\<lambda>x r. on_movie_rating (fst x) r) (ratings db);
          rows = filter (\<lambda>x. where_sql clauses (fst x)) joined;
          groups = group_by (\<lambda>x. movie_key (fst (fst x))) rows;
          aggregated = map (\<lambda>grp. (fst grp, avg_rating (map snd (snd grp)),
                                    rating_count (map snd (snd grp)))) groups
      in filter (\<lambda>mr. rating_min \<le> fst (snd mr)) aggregated)"

definition mr_movie_id :: "movie_key \<times> real \<times> int \<Rightarrow> int" where
  "mr_movie_id mr = (case fst mr of (i, t, y, s) \<Rightarrow> i)"

definition rated_rows :: "database \<Rightarrow> (mg_row \<Rightarrow> bool) list \<Rightarrow> real \<Rightarrow> browse_row list" where
  "rated_rows db clauses rating_min =
     (let mr_mg = left_join (movie_ratings db clauses rating_min)
                    (\<lambda>mr mg. mr_movie_id mr = mg_movie_id mg) (movie_genres db);
          joined = left_join mr_mg on_genre (genres db);
          groups = group_by (\<lambda>x. fst (fst x)) joined
      in map (\<lambda>grp. (fst (fst grp), fst (snd (fst grp)), snd (snd (fst grp)),
                      array_agg_distinct (map g_name (snd grp)))) groups)"

text \<open>
  Python's \<^verbatim>\<open>round(x, d)\<close> rounds half to even; the result is a value of the exact
  reals here.
\<close>

definition py_round :: "real \<Rightarrow> nat \<Rightarrow> real" where
  "py_round x d =
     (let s = x * 10 ^ d; f = \<lfloor>s\<rfloor>; r = s - real_of_int f
      in real_of_int (if r < 1 / 2 then f else if 1 / 2 < r then f + 1
                      else if even f then f else f + 1) / 10 ^ d)"

definition shape_browse :: "browse_row \<Rightarrow> browse_hit" where
  "shape_browse row =
     (case row of ((i, t, y, s), avg, cnt, gs) \<Rightarrow>
        \<lparr>b_movie_id = i, b_title = t, b_year = y, b_summary = s,
         b_avg_rating = (if avg \<noteq> 0 then py_round avg 2 else 0),
         b_rating_count = cnt, b_genres = py_genres gs\<rparr>)"

text \<open>
  \<^verbatim>\<open>SELECT COUNT(DISTINCT m.movie_id) FROM movies m LEFT JOIN movie_genres mg ...
  WHERE {where_sql}\<close>, run with the parameters other than \<^verbatim>\<open>limit\<close>,
  \<^verbatim>\<open>offset\<close> and \<^verbatim>\<open>rating_min\<close>.
\<close>

definition count_sql :: "database \<Rightarrow> (mg_row \<Rightarrow> bool) list \<Rightarrow> int" where
  "count_sql db clauses =
     int (length (remdups (map (\<lambda>x. movie_id (fst x)) (filter (where_sql clauses) (movies_mg db)))))"

definition browse_movies :: "database \<Rightarrow> int option \<Rightarrow> int option \<Rightarrow> int option \<Rightarrow> real option \<Rightarrow>
    int \<Rightarrow> int \<Rightarrow> db_error + browse_result" where
  "browse_movies db gid year_min year_max rating_min limit offset =
     (let clauses = where_clauses gid year_min year_max;
          sql = (if truthy rating_min
                 then (case rating_min of
                         None \<Rightarrow> []
                       | Some v \<Rightarrow> order_by_rating (rated_rows db clauses v))
                 else order_by_rating (plain_rows db clauses))
      in case sql_limit_offset limit offset sql of
           Inl e \<Rightarrow> Inl e
         | Inr result \<Rightarrow>
             Inr \<lparr>b_movies = map shape_browse result, total_count = count_sql db clauses\<rparr>)"

subsection \<open>\<^verbatim>\<open>get_stats\<close>\<close>

record stats =
  st_movie_count :: int
  st_rating_count :: int
  st_user_count :: int
  st_genre_count :: int

definition get_stats :: "database \<Rightarrow> stats" where
  "get_stats db =
     \<lparr>st_movie_count = int (length (movies db)), st_rating_count = int (length (ratings db)),
      st_user_count = int (length (users db)), st_genre_count = int (length (genres db))\<rparr>"

subsection \<open>\<^verbatim>\<open>get_movie_details\<close>\<close>

record movie_details =
  d_movie_id :: int
  d_title :: string
  d_year :: "int option"
  d_summary :: "string option"
  d_avg_rating :: real
  d_rating_count :: int
  d_genres :: "string option list"
  d_imdb_id :: "string option"
  d_tmdb_id :: "string option"
  d_imdb_url :: "string option"
  d_tmdb_url :: "string option"

type_synonym details_row =
  "((mgg_row \<times> rating_row option) \<times> link option)"

definition details_key :: "details_row \<Rightarrow> movie_key \<times> string option \<times> string option" where
  "details_key x =
     (movie_key (fst (fst (fst (fst x)))),
      (case snd x of None \<Rightarrow> None | Some l \<Rightarrow> imdb_id l),
      (case snd x of None \<Rightarrow> None | Some l \<Rightarrow> tmdb_id l))"

definition details_rows :: "database \<Rightarrow> int \<Rightarrow>
    ((movie_key \<times> string option \<times> string option) \<times> details_row list) list" where
  "details_rows db mid =
     (let rated = left_join (movies_mg_g db) (\<lambda>x r. on_movie_rating (fst (fst x)) r) (ratings db);
          linked = left_join rated (\<lambda>x l. movie_id (fst (fst (fst x))) = l_movie_id l) (links db);
          rows = filter (\<lambda>x. movie_id (fst (fst (fst (fst x)))) = mid) linked
      in group_by details_key rows)"

text \<open>A string used as a condition is true when it is neither \<^verbatim>\<open>None\<close> nor empty.\<close>

definition url_if :: "string \<Rightarrow> string option \<Rightarrow> string \<Rightarrow> string option" where
  "url_if prefix ident suffix =
     (case ident of None \<Rightarrow> None
      | Some s \<Rightarrow> if s = [] then None else Some (prefix @ s @ suffix))"

definition shape_details ::
    "(movie_key \<times> string option \<times> string option) \<times> details_row list \<Rightarrow> movie_details" where
  "shape_details grp =
     (case fst grp of ((i, t, y, s), imdb, tmdb) \<Rightarrow>
        (let avg = avg_rating (map (\<lambda>x. snd (fst x)) (snd grp))
         in \<lparr>d_movie_id = i, d_title = t, d_year = y, d_summary = s,
             d_avg_rating = (if avg \<noteq> 0 then py_round avg 2 else 0),
             d_rating_count = rating_count (map (\<lambda>x. snd (fst x)) (snd grp)),
             d_genres = py_genres (array_agg_distinct (map (\<lambda>x. g_name (fst (fst x))) (snd grp))),
             d_imdb_id = imdb, d_tmdb_id = tmdb,
             d_imdb_url = url_if ''https://www.imdb.com/title/'' imdb ''/'',
             d_tmdb_url = url_if ''https://www.themoviedb.org/movie/'' tmdb ''''\<rparr>))"

definition get_movie_details :: "database \<Rightarrow> int \<Rightarrow> movie_details option" where
  "get_movie_details db mid = map_option shape_details (fetchone (details_rows db mid))"

subsection \<open>\<^verbatim>\<open>get_analytics_data\<close>\<close>

definition inner_join :: "'a list \<Rightarrow> ('a \<Rightarrow> 'b \<Rightarrow> bool) \<Rightarrow> 'b list \<Rightarrow> ('a \<times> 'b) list" where
  "inner_join xs on ys = concat (map (\<lambda>x. map (Pair x) (filter (on x) ys)) xs)"

text \<open>
  \<^verbatim>\<open>AVG\<close> over the rows of a group of an inner join on \<^verbatim>\<open>ratings\<close>: such a group
  has a row, and \<^verbatim>\<open>rating\<close> has a value in each.
\<close>

definition avg_of :: "real list \<Rightarrow> real" where
  "avg_of vs = sum_list vs / real (length vs)"

record top_movie =
  t_title :: string
  t_year :: "int option"
  t_avg_rating :: real
  t_rating_count :: int

record genre_count =
  gc_genre :: string
  gc_count :: int

record year_ratings =
  yr_year :: int
  yr_count :: int
  yr_avg_rating :: real

record genre_rating =
  gr_genre :: string
  gr_avg_rating :: real
  gr_rating_count :: int

record decade_count =
  dc_decade :: string
  dc_count :: int

datatype analytics_value =
    TopMovies "top_movie list"
  | GenreDistribution "genre_count list"
  | RatingsByYear "year_ratings list"
  | AvgRatingByGenre "genre_rating list"
  | MoviesByDecade "decade_count list"

text \<open>
  \<^verbatim>\<open>... FROM movies m JOIN ratings r ON m.movie_id = r.movie_id
  GROUP BY m.movie_id, m.title, m.year HAVING COUNT(r.rating_id) >= 50
  ORDER BY AVG(r.rating) DESC LIMIT 10\<close>
\<close>

definition count_rating_ids :: "('a \<times> rating_row) list \<Rightarrow> int" where
  "count_rating_ids grp = sql_count (map (\<lambda>x. Some (rating_id (snd x))) grp)"

definition top_movies_sql :: "database \<Rightarrow> top_movie list" where
  "top_movies_sql db =
     (let joined = inner_join (movies db) on_movie_rating (ratings db);
          groups = group_by (\<lambda>x. (movie_id (fst x), title (fst x), year (fst x))) joined;
          having = filter (\<lambda>grp. 50 \<le> count_rating_ids (snd grp)) groups;
          ordered = sort_key (\<lambda>grp. - avg_of (map (\<lambda>x. rating (snd x)) (snd grp))) having
      in map (\<lambda>grp. case fst grp of (i, t, y) \<Rightarrow>
                \<lparr>t_title = t, t_year = y,
                 t_avg_rating = pg_round (avg_of (map (\<lambda>x. rating (snd x)) (snd grp))) 2,
                 t_rating_count = count_rating_ids (snd grp)\<rparr>)
             (take 10 ordered))"

definition on_genre_mg :: "genre \<Rightarrow> movie_genre \<Rightarrow> bool" where
  "on_genre_mg g mg \<longleftrightarrow> genre_id g = mg_genre_id mg"

definition genre_dist_sql :: "database \<Rightarrow> genre_count list" where
  "genre_dist_sql db =
     (let joined = inner_join (genres db) on_genre_mg (movie_genres db);
          groups = group_by (\<lambda>x. (genre_id (fst x), genre_name (fst x))) joined;
          counted = map (\<lambda>grp. \<lparr>gc_genre = snd (fst grp),
                                 gc_count = int (length (remdups (map (\<lambda>x. mg_movie_id (snd x))
                                                                      (snd grp))))\<rparr>) groups
      in sort_key (\<lambda>row. - gc_count row) counted)"

definition ratings_time_sql :: "database \<Rightarrow> year_ratings list" where
  "ratings_time_sql db =
     (let rows = concat (map (\<lambda>r. case rated_at r of None \<Rightarrow> [] | Some t \<Rightarrow> [(ts_year t, r)])
                             (ratings db));
          groups = group_by fst rows;
          aggregated = map (\<lambda>grp. \<lparr>yr_year = fst grp, yr_count = int (length (snd grp)),
                                    yr_avg_rating = pg_round (avg_of (map (\<lambda>x. rating (snd x))
                                                                          (snd grp))) 2\<rparr>) groups
      in sort_key yr_year aggregated)"

definition genre_ratings_sql :: "database \<Rightarrow> genre_rating list" where
  "genre_ratings_sql db =
     (let tagged = inner_join (genres db) on_genre_mg (movie_genres db);
          joined = inner_join tagged (\<lambda>x r. mg_movie_id (snd x) = r_movie_id r) (ratings db);
          groups = group_by (\<lambda>x. (genre_id (fst (fst x)), genre_name (fst (fst x)))) joined;
          aggregated = map (\<lambda>grp. \<lparr>gr_genre = snd (fst grp),
                                    gr_avg_rating = pg_round (avg_of (map (\<lambda>x. rating (snd x))
                                                                          (snd grp))) 2,
                                    gr_rating_count = count_rating_ids (snd grp)\<rparr>) groups
      in sort_key (\<lambda>row. - gr_avg_rating row) aggregated)"

text \<open>
  \<^verbatim>\<open>(year / 10) * 10\<close> is integer division, which PostgreSQL truncates towards zero;
  \<^verbatim>\<open>f"{row.decade}s"\<close> prints the integer in decimal.
\<close>

definition pg_int_div :: "int \<Rightarrow> int \<Rightarrow> int" where
  "pg_int_div a b = (if 0 \<le> a then a div b else - ((- a) div b))"

fun str_nat :: "nat \<Rightarrow> string" where
  "str_nat n =
     (if n < 10 then [char_of (48 + n)] else str_nat (n div 10) @ [char_of (48 + n mod 10)])"

definition str_int :: "int \<Rightarrow> string" where
  "str_int i = (if i < 0 then ''-'' @ str_nat (nat (- i)) else str_nat (nat i))"

definition decade_sql :: "database \<Rightarrow> decade_count list" where
  "decade_sql db =
     (let rows = concat (map (\<lambda>m. case year m of None \<Rightarrow> [] | Some y \<Rightarrow> [pg_int_div y 10 * 10])
                             (movies db));
          groups = sort_key fst (group_by (\<lambda>d. d) rows)
      in map (\<lambda>grp. \<lparr>dc_decade = str_int (fst grp) @ ''s'', dc_count = int (length (snd grp))\<rparr>)
             groups)"

text \<open>The dict \<^verbatim>\<open>analytics\<close>, in the order its keys are assigned.\<close>

definition get_analytics_data :: "database \<Rightarrow> (string \<times> analytics_value) list" where
  "get_analytics_data db =
     [(''top_movies'', TopMovies (top_movies_sql db)),
      (''genre_distribution'', GenreDistribution (genre_dist_sql db)),
      (''ratings_by_year'', RatingsByYear (ratings_time_sql db)),
      (''avg_rating_by_genre'', AvgRatingByGenre (genre_ratings_sql db)),
      (''movies_by_decade'', MoviesByDecade (decade_sql db))]"

subsection \<open>The operations as requests against the database\<close>

text \<open>
  A call of a query function is a step from a database to a result and a database. The
  seven functions that run only \<^verbatim>\<open>SELECT\<close> statements return the database they were
  given; \<^verbatim>\<open>add_rating\<close> returns the one its \<^verbatim>\<open>UPDATE\<close> or \<^verbatim>\<open>INSERT\<close> leaves.
\<close>

datatype request =
    GetStats
  | SearchMoviesSemantic string int
  | SearchMoviesKeyword string int
  | GetGenres
  | BrowseMovies "int option" "int option" "int option" "real option" int int
  | GetMovieDetails int
  | AddRating int int real
  | GetAnalyticsData

datatype response =
    StatsResult stats
  | SemanticResult "db_error + semantic_hit list"
  | KeywordResult "db_error + keyword_hit list"
  | GenresResult "(int \<times> string) list"
  | BrowseResult "db_error + browse_result"
  | DetailsResult "movie_details option"
  | RatingResult "rating_result option"
  | AnalyticsResult "(string \<times> analytics_value) list"

fun execute :: "(string \<Rightarrow> vector) \<Rightarrow> (vector \<Rightarrow> vector \<Rightarrow> real) \<Rightarrow> request \<Rightarrow> database \<Rightarrow>
    response \<times> database" where
  "execute embedding distance GetStats db = (StatsResult (get_stats db), db)"
| "execute embedding distance (SearchMoviesSemantic query limit) db =
     (SemanticResult (search_movies_semantic embedding distance db query limit), db)"
| "execute embedding distance (SearchMoviesKeyword query limit) db =
     (KeywordResult (search_movies_keyword db query limit), db)"
| "execute embedding distance GetGenres db = (GenresResult (get_genres db), db)"
| "execute embedding distance (BrowseMovies gid year_min year_max rating_min limit offset) db =
     (BrowseResult (browse_movies db gid year_min year_max rating_min limit offset), db)"
| "execute embedding distance (GetMovieDetails mid) db = (DetailsResult (get_movie_details db mid), db)"
| "execute embedding distance (AddRating uid mid v) db =
     (case add_rating db uid mid v of (result, db') \<Rightarrow> (RatingResult result, db'))"
| "execute embedding distance GetAnalyticsData db = (AnalyticsResult (get_analytics_data db), db)"

subsection \<open>Configuration and the pages\<close>














subsection \<open>Example databases\<close>

definition ts0 :: timestamp where
  "ts0 = \<lparr>ts_year = 2024, ts_rest = 0\<rparr>"

definition ratings_db :: database where
  "ratings_db = \<lparr>movies = [], genres = [], movie_genres = [],
     ratings = [\<lparr>rating_id = 7, user_id = 1, r_movie_id = 10, rating = 3, rated_at = None\<rparr>],
     users = [1, 2], links = [], next_rating_id = 8, current_timestamp = ts0\<rparr>"

definition mk_movie :: "int \<Rightarrow> string \<Rightarrow> int option \<Rightarrow> string option \<Rightarrow> vector option \<Rightarrow> movie" where
  "mk_movie i t y s e =
     \<lparr>movie_id = i, title = t, year = y, summary = s, summary_embedding = e\<rparr>"

definition empty_db :: database where
  "empty_db = \<lparr>movies = [], genres = [], movie_genres = [], ratings = [], users = [],
     links = [], next_rating_id = 1, current_timestamp = ts0\<rparr>"

text \<open>Stand-ins for the engine's embedding function and distance operator.\<close>

definition toy_embedding :: "string \<Rightarrow> vector" where
  "toy_embedding query = [real (length query)]"

definition toy_distance :: "vector \<Rightarrow> vector \<Rightarrow> real" where
  "toy_distance u v = \<bar>sum_list u - sum_list v\<bar> / 7"


definition wildcard_db :: database where
  "wildcard_db = empty_db\<lparr>movies := [mk_movie 1 ''Up'' (Some 2009) None None]\<rparr>"

text \<open>The query \<^verbatim>\<open>a\b\<close>: the letter a, a backslash, the letter b.\<close>

definition escape_query :: string where
  "escape_query = [CHR ''a'', CHR 0x5C, CHR ''b'']"

definition escape_db :: database where
  "escape_db = empty_db\<lparr>movies := [mk_movie 1 escape_query None (Some ''ab'') None,
                                     mk_movie 2 ''a'' None (Some ''ab'') None]\<rparr>"

definition mk_rating :: "int \<Rightarrow> int \<Rightarrow> int \<Rightarrow> real \<Rightarrow> rating_row" where
  "mk_rating i u m v =
     \<lparr>rating_id = i, user_id = u, r_movie_id = m, rating = v, rated_at = Some ts0\<rparr>"

definition browse_db :: database where
  "browse_db = empty_db\<lparr>
     movies := [mk_movie 1 ''Alien'' (Some 1979) None None,
                mk_movie 2 ''Heat'' (Some 1995) None None,
                mk_movie 3 ''Solaris'' (Some 1972) None None],
     genres := [\<lparr>genre_id = 1, genre_name = ''Sci-Fi''\<rparr>, \<lparr>genre_id = 2, genre_name = ''Horror''\<rparr>,
                \<lparr>genre_id = 3, genre_name = ''Crime''\<rparr>],
     movie_genres := [\<lparr>mg_movie_id = 1, mg_genre_id = 1\<rparr>, \<lparr>mg_movie_id = 1, mg_genre_id = 2\<rparr>,
                      \<lparr>mg_movie_id = 2, mg_genre_id = 3\<rparr>, \<lparr>mg_movie_id = 3, mg_genre_id = 1\<rparr>],
     ratings := [mk_rating 1 1 1 5, mk_rating 2 2 1 4, mk_rating 3 1 2 2],
     users := [1, 2]\<rparr>"




section \<open>Properties\<close>

lemma fetchone_Nil [simp]: "fetchone [] = None"
  by (simp add: fetchone_def)

lemma fetchone_Cons [simp]: "fetchone (r # rows) = Some r"
  by (simp add: fetchone_def)

lemma rating_id_update_row [simp]: "rating_id (update_row db v r) = rating_id r"
  by (simp add: update_row_def)

lemma update_keeps_ids:
  "map rating_id (map (\<lambda>r. if rating_matches uid mid r then update_row db v r else r) rs)
   = map rating_id rs"
  by (induction rs) simp_all





subsection \<open>Similarity search\<close>







subsection \<open>Keyword search\<close>

text \<open>
  C6. The query is put between two \<^verbatim>\<open>%\<close> unescaped, so its own \<^verbatim>\<open>%\<close>,
  \<^verbatim>\<open>_\<close> and backslash act as pattern syntax. For the query \<^verbatim>\<open>_\<close> the search returns
  the movie titled "Up", which has no summary and no underscore in its title: a returned
  movie whose title and summary do not contain the query.
\<close>

theorem search_movies_keyword_wildcard:
  "search_movies_keyword wildcard_db ''_'' 20 =
     Inr [\<lparr>k_movie_id = 1, k_title = ''Up'', k_year = Some 2009, k_summary = None,
            k_genres = []\<rparr>]
   \<and> CHR ''_'' \<notin> set (lower ''Up'')"
  by code_simp

text \<open>
  C3. For the query \<^verbatim>\<open>a\b\<close> the pattern \<^verbatim>\<open>%a\b%\<close> matches texts that contain
  \<^verbatim>\<open>ab\<close>. Movie 1, whose title is exactly the query, and movie 2, titled "a", both match
  in the summary only, and the order by title puts movie 2 first: a movie that matches only
  in its summary precedes the movie whose title equals the query.
\<close>

theorem search_movies_keyword_escape:
  "search_movies_keyword escape_db escape_query 20 =
     Inr [\<lparr>k_movie_id = 2, k_title = ''a'', k_year = None, k_summary = Some ''ab'',
            k_genres = []\<rparr>,
          \<lparr>k_movie_id = 1, k_title = escape_query, k_year = None, k_summary = Some ''ab'',
            k_genres = []\<rparr>]
   \<and> \<not> ilike ''a'' (keyword_pattern escape_query)
   \<and> ilike_null (Some ''ab'') (keyword_pattern escape_query)"
  by code_simp

subsection \<open>Joins and groups\<close>

lemma left_join_Some:
  "(x, Some y) \<in> set (left_join xs on ys) \<longleftrightarrow> x \<in> set xs \<and> y \<in> set ys \<and> on x y"
proof -
  have "\<And>a. (x, Some y) \<in> set (case filter (on a) ys of [] \<Rightarrow> [(a, None)]
                                   | zs \<Rightarrow> map (\<lambda>y. (a, Some y)) zs)
            \<longleftrightarrow> a = x \<and> y \<in> set ys \<and> on x y"
  proof -
    fix a
    show "(x, Some y) \<in> set (case filter (on a) ys of [] \<Rightarrow> [(a, None)]
                                   | zs \<Rightarrow> map (\<lambda>y. (a, Some y)) zs)
            \<longleftrightarrow> a = x \<and> y \<in> set ys \<and> on x y"
    proof (cases "filter (on a) ys")
      case Nil
      then have "\<forall>y \<in> set ys. \<not> on a y" by (simp add: filter_empty_conv)
      with Nil show ?thesis by auto
    next
      case (Cons z zs)
      have "set (filter (on a) ys) = {y \<in> set ys. on a y}" by simp
      with Cons show ?thesis by (auto simp: image_iff)
    qed
  qed
  then show ?thesis by (auto simp: left_join_def)
qed

lemma left_join_None:
  "(x, None) \<in> set (left_join xs on ys) \<longleftrightarrow> x \<in> set xs \<and> (\<forall>y \<in> set ys. \<not> on x y)"
proof -
  have "\<And>a. (x, None) \<in> set (case filter (on a) ys of [] \<Rightarrow> [(a, None)]
                                   | zs \<Rightarrow> map (\<lambda>y. (a, Some y)) zs)
            \<longleftrightarrow> a = x \<and> (\<forall>y \<in> set ys. \<not> on x y)"
  proof -
    fix a
    show "(x, None) \<in> set (case filter (on a) ys of [] \<Rightarrow> [(a, None)]
                                   | zs \<Rightarrow> map (\<lambda>y. (a, Some y)) zs)
            \<longleftrightarrow> a = x \<and> (\<forall>y \<in> set ys. \<not> on x y)"
    proof (cases "filter (on a) ys")
      case Nil
      then have "\<forall>y \<in> set ys. \<not> on a y" by (simp add: filter_empty_conv)
      with Nil show ?thesis by auto
    next
      case (Cons z zs)
      then have "z \<in> set (filter (on a) ys)" by simp
      then have "z \<in> set ys" "on a z" by simp_all
      with Cons show ?thesis by auto
    qed
  qed
  then show ?thesis by (auto simp: left_join_def)
qed

lemma left_join_fst: "p \<in> set (left_join xs on ys) \<Longrightarrow> fst p \<in> set xs"
  by (cases p, cases "snd p") (auto simp: left_join_Some left_join_None)

lemma left_join_total: "x \<in> set xs \<Longrightarrow> \<exists>yo. (x, yo) \<in> set (left_join xs on ys)"
proof (cases "\<exists>y \<in> set ys. on x y")
  case True
  assume "x \<in> set xs"
  with True obtain y where "(x, Some y) \<in> set (left_join xs on ys)"
    by (auto simp: left_join_Some)
  then show ?thesis ..
next
  case False
  assume "x \<in> set xs"
  with False have "(x, None) \<in> set (left_join xs on ys)" by (simp add: left_join_None)
  then show ?thesis ..
qed

lemma group_by_mem:
  "(k, grp) \<in> set (group_by key rows) \<longleftrightarrow>
     (\<exists>r \<in> set rows. key r = k) \<and> grp = filter (\<lambda>r. key r = k) rows"
  by (auto simp: group_by_def)

lemma set_array_agg_distinct [simp]: "set (array_agg_distinct xs) = set xs"
proof -
  have "Some ` set (List.map_filter (\<lambda>x. x) xs) = set xs - {None}"
    by (auto simp: List.map_filter_def image_iff)
  then show ?thesis
    by (auto simp: array_agg_distinct_def)
qed


subsection \<open>Filtered browse\<close>

lemma where_sql_clauses:
  "where_sql (where_clauses gid year_min year_max) x \<longleftrightarrow>
     (\<forall>g. gid = Some g \<and> g \<noteq> 0 \<longrightarrow> genre_clause g x)
     \<and> (\<forall>lo. year_min = Some lo \<and> lo \<noteq> 0 \<longrightarrow> year_min_clause lo x)
     \<and> (\<forall>hi. year_max = Some hi \<and> hi \<noteq> 0 \<longrightarrow> year_max_clause hi x)"
  by (auto simp: where_sql_def where_clauses_def clause_if_def truthy_def split: option.splits)

lemma movies_mg_Some:
  "(m, Some mg) \<in> set (movies_mg db) \<longleftrightarrow>
     m \<in> set (movies db) \<and> mg \<in> set (movie_genres db) \<and> movie_id m = mg_movie_id mg"
  by (simp add: movies_mg_def left_join_Some)

lemma movies_mg_fst: "(m, mgo) \<in> set (movies_mg db) \<Longrightarrow> m \<in> set (movies db)"
  using left_join_fst [of "(m, mgo)"] by (simp add: movies_mg_def)

lemma movies_mg_total: "m \<in> set (movies db) \<Longrightarrow> \<exists>mgo. (m, mgo) \<in> set (movies_mg db)"
  unfolding movies_mg_def by (rule left_join_total)

lemma filtered_movie_iff:
  "(\<exists>mgo. (m, mgo) \<in> set (movies_mg db) \<and> where_sql (where_clauses gid year_min year_max) (m, mgo))
   \<longleftrightarrow> m \<in> set (movies db)
     \<and> (\<forall>g. gid = Some g \<and> g \<noteq> 0 \<longrightarrow>
           (\<exists>mg \<in> set (movie_genres db). mg_movie_id mg = movie_id m \<and> mg_genre_id mg = g))
     \<and> (\<forall>lo. year_min = Some lo \<and> lo \<noteq> 0 \<longrightarrow> (\<exists>y. year m = Some y \<and> lo \<le> y))
     \<and> (\<forall>hi. year_max = Some hi \<and> hi \<noteq> 0 \<longrightarrow> (\<exists>y. year m = Some y \<and> y \<le> hi))"
  (is "?L \<longleftrightarrow> ?R")
proof
  assume ?L
  then obtain mgo where in_join: "(m, mgo) \<in> set (movies_mg db)"
    and w: "where_sql (where_clauses gid year_min year_max) (m, mgo)" by blast
  from in_join have m: "m \<in> set (movies db)" by (rule movies_mg_fst)
  have g: "\<exists>mg \<in> set (movie_genres db). mg_movie_id mg = movie_id m \<and> mg_genre_id mg = g"
    if "gid = Some g" "g \<noteq> 0" for g
  proof -
    from w that have "genre_clause g (m, mgo)" by (simp add: where_sql_clauses)
    then obtain mg where "mgo = Some mg" "mg_genre_id mg = g"
      by (auto simp: genre_clause_def split: option.splits)
    with in_join show ?thesis by (auto simp: movies_mg_Some)
  qed
  have lo: "\<exists>y. year m = Some y \<and> lo \<le> y" if "year_min = Some lo" "lo \<noteq> 0" for lo
    using w that by (auto simp: where_sql_clauses year_min_clause_def split: option.splits)
  have hi: "\<exists>y. year m = Some y \<and> y \<le> hi" if "year_max = Some hi" "hi \<noteq> 0" for hi
    using w that by (auto simp: where_sql_clauses year_max_clause_def split: option.splits)
  from m g lo hi show ?R by blast
next
  assume r: ?R
  then have m: "m \<in> set (movies db)" by blast
  from r have lo: "year_min = Some lo \<and> lo \<noteq> 0 \<longrightarrow> year_min_clause lo (m, mgo)" for lo mgo
    by (auto simp: year_min_clause_def)
  from r have hi: "year_max = Some hi \<and> hi \<noteq> 0 \<longrightarrow> year_max_clause hi (m, mgo)" for hi mgo
    by (auto simp: year_max_clause_def)
  show ?L
  proof (cases "\<exists>g. gid = Some g \<and> g \<noteq> 0")
    case True
    then obtain g where g: "gid = Some g" "g \<noteq> 0" by blast
    with r obtain mg where mg: "mg \<in> set (movie_genres db)" "mg_movie_id mg = movie_id m"
      "mg_genre_id mg = g" by blast
    with m have "(m, Some mg) \<in> set (movies_mg db)" by (simp add: movies_mg_Some)
    moreover have "where_sql (where_clauses gid year_min year_max) (m, Some mg)"
      using g mg lo hi by (simp add: where_sql_clauses genre_clause_def)
    ultimately show ?thesis by blast
  next
    case False
    from movies_mg_total [OF m] obtain mgo where "(m, mgo) \<in> set (movies_mg db)" ..
    moreover have "where_sql (where_clauses gid year_min year_max) (m, mgo)"
      using False lo hi by (auto simp: where_sql_clauses)
    ultimately show ?thesis by blast
  qed
qed

lemma count_sql_card:
  "count_sql db (where_clauses gid year_min year_max) =
     int (card {i. \<exists>m \<in> set (movies db). movie_id m = i
       \<and> (\<forall>g. gid = Some g \<and> g \<noteq> 0 \<longrightarrow>
             (\<exists>mg \<in> set (movie_genres db). mg_movie_id mg = movie_id m \<and> mg_genre_id mg = g))
       \<and> (\<forall>lo. year_min = Some lo \<and> lo \<noteq> 0 \<longrightarrow> (\<exists>y. year m = Some y \<and> lo \<le> y))
       \<and> (\<forall>hi. year_max = Some hi \<and> hi \<noteq> 0 \<longrightarrow> (\<exists>y. year m = Some y \<and> y \<le> hi))})"
proof -
  let ?cs = "where_clauses gid year_min year_max"
  have "set (map (\<lambda>x. movie_id (fst x)) (filter (where_sql ?cs) (movies_mg db)))
        = {i. \<exists>m. movie_id m = i \<and> (\<exists>mgo. (m, mgo) \<in> set (movies_mg db) \<and> where_sql ?cs (m, mgo))}"
    by (auto simp: image_iff) blast+
  also have "\<dots> = {i. \<exists>m \<in> set (movies db). movie_id m = i
       \<and> (\<forall>g. gid = Some g \<and> g \<noteq> 0 \<longrightarrow>
             (\<exists>mg \<in> set (movie_genres db). mg_movie_id mg = movie_id m \<and> mg_genre_id mg = g))
       \<and> (\<forall>lo. year_min = Some lo \<and> lo \<noteq> 0 \<longrightarrow> (\<exists>y. year m = Some y \<and> lo \<le> y))
       \<and> (\<forall>hi. year_max = Some hi \<and> hi \<noteq> 0 \<longrightarrow> (\<exists>y. year m = Some y \<and> y \<le> hi))}"
    unfolding filtered_movie_iff by blast
  finally show ?thesis
    by (simp add: count_sql_def length_remdups_card_conv)
qed

lemma browse_movies_Inr:
  assumes "browse_movies db gid year_min year_max rating_min limit offset = Inr res"
  shows "total_count res = count_sql db (where_clauses gid year_min year_max)"
  using assms by (auto simp: browse_movies_def Let_def split: sum.splits)


lemma browse_overstated:
  "browse_movies browse_db None None None (Some 4) 20 0 =
     Inr \<lparr>b_movies = [\<lparr>b_movie_id = 1, b_title = ''Alien'', b_year = Some 1979,
                       b_summary = None, b_avg_rating = 9 / 2, b_rating_count = 4,
                       b_genres = [Some ''Horror'', Some ''Sci-Fi'']\<rparr>],
          total_count = 3\<rparr>"
  by code_simp

text \<open>
  C1. Whenever \<^verbatim>\<open>browse_movies\<close> returns, its \<^verbatim>\<open>total_count\<close> is the result
  of the second query: the number of distinct identifiers of the movies that pass the genre
  and year predicates (each present only for a truthy argument). The minimum-average-rating
  predicate has no part in it: the count is the same for every value of \<^verbatim>\<open>rating_min\<close>.
  So with \<^verbatim>\<open>rating_min\<close> set the count may exceed the number of movies that pass all
  filters: there is a call whose page is not full, hence holds every such movie, and is
  shorter than \<^verbatim>\<open>total_count\<close>.
\<close>

theorem browse_movies_total_count:
  assumes "browse_movies db gid year_min year_max rating_min limit offset = Inr res"
  shows "total_count res =
     int (card {i. \<exists>m \<in> set (movies db). movie_id m = i
       \<and> (\<forall>g. gid = Some g \<and> g \<noteq> 0 \<longrightarrow>
             (\<exists>mg \<in> set (movie_genres db). mg_movie_id mg = movie_id m \<and> mg_genre_id mg = g))
       \<and> (\<forall>lo. year_min = Some lo \<and> lo \<noteq> 0 \<longrightarrow> (\<exists>y. year m = Some y \<and> lo \<le> y))
       \<and> (\<forall>hi. year_max = Some hi \<and> hi \<noteq> 0 \<longrightarrow> (\<exists>y. year m = Some y \<and> y \<le> hi))})
   \<and> (\<forall>r' res'. browse_movies db gid year_min year_max r' limit offset = Inr res'
         \<longrightarrow> total_count res' = total_count res)
   \<and> (\<exists>db0 r0 res0. browse_movies db0 None None None (Some r0) 20 0 = Inr res0
         \<and> r0 \<noteq> 0 \<and> int (length (b_movies res0)) < 20
         \<and> int (length (b_movies res0)) < total_count res0)"
proof (intro conjI allI impI)
  show "total_count res =
     int (card {i. \<exists>m \<in> set (movies db). movie_id m = i
       \<and> (\<forall>g. gid = Some g \<and> g \<noteq> 0 \<longrightarrow>
             (\<exists>mg \<in> set (movie_genres db). mg_movie_id mg = movie_id m \<and> mg_genre_id mg = g))
       \<and> (\<forall>lo. year_min = Some lo \<and> lo \<noteq> 0 \<longrightarrow> (\<exists>y. year m = Some y \<and> lo \<le> y))
       \<and> (\<forall>hi. year_max = Some hi \<and> hi \<noteq> 0 \<longrightarrow> (\<exists>y. year m = Some y \<and> y \<le> hi))})"
    using browse_movies_Inr [OF assms] by (simp only: count_sql_card)
next
  fix r' res'
  assume "browse_movies db gid year_min year_max r' limit offset = Inr res'"
  from browse_movies_Inr [OF this] browse_movies_Inr [OF assms]
  show "total_count res' = total_count res" by simp
next
  show "\<exists>db0 r0 res0. browse_movies db0 None None None (Some r0) 20 0 = Inr res0
         \<and> r0 \<noteq> 0 \<and> int (length (b_movies res0)) < 20
         \<and> int (length (b_movies res0)) < total_count res0"
    by (rule exI [of _ browse_db], rule exI [of _ 4], simp add: browse_overstated)
qed

theorem browse_movies_total_count_witness:
  "browse_movies browse_db (Some 1) (Some 1970) (Some 1990) (Some 4) 20 0 =
     Inr \<lparr>b_movies = [\<lparr>b_movie_id = 1, b_title = ''Alien'', b_year = Some 1979,
                       b_summary = None, b_avg_rating = 9 / 2, b_rating_count = 2,
                       b_genres = [Some ''Horror'', Some ''Sci-Fi'']\<rparr>],
          total_count = 2\<rparr>
   \<and> (\<exists>res'. browse_movies browse_db (Some 1) (Some 1970) (Some 1990) None 20 0 = Inr res'
         \<and> total_count res' = 2)"
proof -
  have r: "browse_movies browse_db (Some 1) (Some 1970) (Some 1990) (Some 4) 20 0 =
     Inr \<lparr>b_movies = [\<lparr>b_movie_id = 1, b_title = ''Alien'', b_year = Some 1979,
                       b_summary = None, b_avg_rating = 9 / 2, b_rating_count = 2,
                       b_genres = [Some ''Horror'', Some ''Sci-Fi'']\<rparr>],
          total_count = 2\<rparr>"
    by code_simp
  obtain res' where r': "browse_movies browse_db (Some 1) (Some 1970) (Some 1990) None 20 0 = Inr res'"
    by (cases "browse_movies browse_db (Some 1) (Some 1970) (Some 1990) None 20 0")
       (auto simp: browse_movies_def Let_def sql_limit_offset_def split: sum.splits)
  from browse_movies_total_count [OF r] r' have "total_count res' = 2" by simp
  with r r' show ?thesis by blast
qed

text \<open>
  C7. \<^verbatim>\<open>browse_movies\<close> treats a falsy filter argument as unset: with
  \<^verbatim>\<open>genre_id=0\<close>, \<^verbatim>\<open>year_min=0\<close>, \<^verbatim>\<open>year_max=0\<close> or
  \<^verbatim>\<open>rating_min=0.0\<close> it returns exactly what it returns with \<^verbatim>\<open>None\<close> in that
  place, whatever the other arguments are.
\<close>

theorem browse_movies_falsy_unset:
  "browse_movies db (Some 0) year_min year_max rating_min limit offset
     = browse_movies db None year_min year_max rating_min limit offset
   \<and> browse_movies db gid (Some 0) year_max rating_min limit offset
     = browse_movies db gid None year_max rating_min limit offset
   \<and> browse_movies db gid year_min (Some 0) rating_min limit offset
     = browse_movies db gid year_min None rating_min limit offset
   \<and> browse_movies db gid year_min year_max (Some 0) limit offset
     = browse_movies db gid year_min year_max None limit offset"
  by (simp add: browse_movies_def where_clauses_def clause_if_def truthy_def)

subsection \<open>Filtered browse: what a returned movie satisfies\<close>

lemma group_by_memD:
  "grp \<in> set (group_by key rows) \<Longrightarrow>
     (\<exists>r \<in> set rows. key r = fst grp) \<and> snd grp = filter (\<lambda>r. key r = fst grp) rows"
  by (cases grp) (simp add: group_by_mem)













lemma set_order_by_rating [simp]: "set (order_by_rating rows) = set rows"
  by (simp add: order_by_rating_def)






subsection \<open>Analytics\<close>




subsection \<open>Reads and the single write\<close>

lemma add_rating_frame:
  "movies (snd (add_rating db uid mid v)) = movies db
   \<and> genres (snd (add_rating db uid mid v)) = genres db
   \<and> movie_genres (snd (add_rating db uid mid v)) = movie_genres db
   \<and> users (snd (add_rating db uid mid v)) = users db
   \<and> links (snd (add_rating db uid mid v)) = links db"
  by (simp add: add_rating_def update_sql_def insert_sql_def Let_def split: option.splits)

lemma add_rating_ratings:
  "ratings (snd (add_rating db uid mid v))
     = map (\<lambda>r. if rating_matches uid mid r then update_row db v r else r) (ratings db)
   \<or> (\<exists>row. ratings (snd (add_rating db uid mid v)) = ratings db @ [row])"
  by (simp add: add_rating_def update_sql_def insert_sql_def Let_def split: option.splits)

lemma add_rating_keeps_rows:
  "take (length (ratings db)) (map rating_id (ratings (snd (add_rating db uid mid v))))
     = map rating_id (ratings db)"
  using add_rating_ratings [of db uid mid v]
  by (auto simp: update_keeps_ids simp del: map_map)

lemma execute_add_rating: "snd (execute embedding distance (AddRating uid mid v) db) = snd (add_rating db uid mid v)"
  by (simp split: prod.splits)

text \<open>
  C8. Each of the seven query functions other than \<^verbatim>\<open>add_rating\<close> leaves the database
  as it found it, so a call that changes the database is a call of \<^verbatim>\<open>add_rating\<close>.
  \<^verbatim>\<open>add_rating\<close> leaves every table other than \<^verbatim>\<open>ratings\<close> unchanged and either
  updates the matching rows of \<^verbatim>\<open>ratings\<close> in place or appends one row. No call deletes
  anything: every other table is unchanged and the \<^verbatim>\<open>ratings\<close> rows present before are
  still there, under the same identifiers, in the same places.
\<close>

theorem reads_only_single_write:
  "snd (execute embedding distance GetStats db) = db
   \<and> snd (execute embedding distance (SearchMoviesSemantic query limit) db) = db
   \<and> snd (execute embedding distance (SearchMoviesKeyword query limit) db) = db
   \<and> snd (execute embedding distance GetGenres db) = db
   \<and> snd (execute embedding distance (BrowseMovies gid year_min year_max rating_min limit offset) db) = db
   \<and> snd (execute embedding distance (GetMovieDetails mid) db) = db
   \<and> snd (execute embedding distance GetAnalyticsData db) = db
   \<and> (\<forall>req. snd (execute embedding distance req db) \<noteq> db \<longrightarrow> (\<exists>u m r. req = AddRating u m r))
   \<and> movies (snd (execute embedding distance (AddRating uid mid v) db)) = movies db
   \<and> genres (snd (execute embedding distance (AddRating uid mid v) db)) = genres db
   \<and> movie_genres (snd (execute embedding distance (AddRating uid mid v) db)) = movie_genres db
   \<and> users (snd (execute embedding distance (AddRating uid mid v) db)) = users db
   \<and> links (snd (execute embedding distance (AddRating uid mid v) db)) = links db
   \<and> (ratings (snd (execute embedding distance (AddRating uid mid v) db))
        = map (\<lambda>r. if rating_matches uid mid r then update_row db v r else r) (ratings db)
      \<or> (\<exists>row. ratings (snd (execute embedding distance (AddRating uid mid v) db))
                  = ratings db @ [row]))
   \<and> (\<forall>req. movies (snd (execute embedding distance req db)) = movies db
          \<and> genres (snd (execute embedding distance req db)) = genres db
          \<and> movie_genres (snd (execute embedding distance req db)) = movie_genres db
          \<and> users (snd (execute embedding distance req db)) = users db
          \<and> links (snd (execute embedding distance req db)) = links db
          \<and> take (length (ratings db))
               (map rating_id (ratings (snd (execute embedding distance req db))))
             = map rating_id (ratings db))"
proof -
  have reads: "snd (execute embedding distance req db) = db" if "\<nexists>u m r. req = AddRating u m r" for req
    using that by (cases req) simp_all
  have all: "movies (snd (execute embedding distance req db)) = movies db
          \<and> genres (snd (execute embedding distance req db)) = genres db
          \<and> movie_genres (snd (execute embedding distance req db)) = movie_genres db
          \<and> users (snd (execute embedding distance req db)) = users db
          \<and> links (snd (execute embedding distance req db)) = links db
          \<and> take (length (ratings db))
               (map rating_id (ratings (snd (execute embedding distance req db))))
             = map rating_id (ratings db)" for req
  proof (cases "\<exists>u m r. req = AddRating u m r")
    case True
    then obtain u m r where "req = AddRating u m r" by blast
    then show ?thesis
      using add_rating_frame [of db u m r] add_rating_keeps_rows [of db u m r]
      by (simp only: execute_add_rating)
  next
    case False
    then show ?thesis by (simp add: reads)
  qed
  have only: "\<forall>req. snd (execute embedding distance req db) \<noteq> db \<longrightarrow> (\<exists>u m r. req = AddRating u m r)"
    using reads by blast
  have r: "snd (execute embedding distance GetStats db) = db"
    "snd (execute embedding distance (SearchMoviesSemantic query limit) db) = db"
    "snd (execute embedding distance (SearchMoviesKeyword query limit) db) = db"
    "snd (execute embedding distance GetGenres db) = db"
    "snd (execute embedding distance (BrowseMovies gid year_min year_max rating_min limit offset) db) = db"
    "snd (execute embedding distance (GetMovieDetails mid) db) = db"
    "snd (execute embedding distance GetAnalyticsData db) = db"
    by simp_all
  show ?thesis
    unfolding execute_add_rating
    using r only all add_rating_frame [of db uid mid v] add_rating_ratings [of db uid mid v]
    by (intro conjI) blast+
qed


theorem reads_only_single_write_witness:
  "snd (execute toy_embedding toy_distance (AddRating 2 10 4) ratings_db) \<noteq> ratings_db
   \<and> (\<exists>u m r. AddRating 2 10 4 = AddRating u m r)
   \<and> snd (execute toy_embedding toy_distance GetStats ratings_db) = ratings_db"
proof -
  have "length (ratings (snd (execute toy_embedding toy_distance (AddRating 2 10 4) ratings_db))) = 2"
    by (simp add: add_rating_def check_sql_def rating_matches_def insert_sql_def Let_def
        ratings_db_def)
  moreover have "length (ratings ratings_db) = 1" by (simp add: ratings_db_def)
  ultimately have "snd (execute toy_embedding toy_distance (AddRating 2 10 4) ratings_db) \<noteq> ratings_db"
    by auto
  with reads_only_single_write [of toy_embedding toy_distance ratings_db]
  show ?thesis by blast
qed

subsection \<open>Configuration check\<close>





subsection \<open>Keyword search with a query free of pattern characters\<close>

text \<open>
  When the query has none of \<^verbatim>\<open>%\<close>, \<^verbatim>\<open>_\<close> and backslash, the pattern
  \<^verbatim>\<open>%query%\<close> means containment: every returned movie contains the query in its title
  or summary, ignoring case, and a movie whose title is the query comes before every movie
  whose title does not match.
\<close>

lemma like_match_any: "like_match ''%'' s"
  by (induction s) simp_all

lemma like_match_percent:
  "like_match (CHR ''%'' # r) s \<longleftrightarrow> (\<exists>pre post. s = pre @ post \<and> like_match r post)"
proof (induction s)
  case Nil
  then show ?case by simp
next
  case (Cons c s)
  show ?case
  proof
    assume "like_match (CHR ''%'' # r) (c # s)"
    then consider "like_match r (c # s)" | "like_match (CHR ''%'' # r) s" by auto
    then show "\<exists>pre post. c # s = pre @ post \<and> like_match r post"
    proof cases
      case 1
      then have "c # s = [] @ (c # s) \<and> like_match r (c # s)" by simp
      then show ?thesis by blast
    next
      case 2
      with Cons.IH obtain pre post where "s = pre @ post" "like_match r post" by blast
      then have "c # s = (c # pre) @ post \<and> like_match r post" by simp
      then show ?thesis by blast
    qed
  next
    assume "\<exists>pre post. c # s = pre @ post \<and> like_match r post"
    then obtain pre post where p: "c # s = pre @ post" "like_match r post" by blast
    show "like_match (CHR ''%'' # r) (c # s)"
    proof (cases pre)
      case Nil
      with p have "post = c # s" by simp
      with p(2) show ?thesis by simp
    next
      case (Cons a pre')
      with p have "s = pre' @ post" by simp
      with p(2) Cons.IH have "like_match (CHR ''%'' # r) s" by blast
      then show ?thesis by simp
    qed
  qed
qed

lemma like_match_literal:
  assumes "set p \<inter> like_meta = {}"
  shows "like_match (p @ r) s \<longleftrightarrow> (\<exists>post. s = p @ post \<and> like_match r post)"
  using assms
proof (induction p arbitrary: s)
  case Nil
  then show ?case by simp
next
  case (Cons a p)
  then have a: "a \<noteq> CHR ''%''" "a \<noteq> CHR ''_''" "a \<noteq> CHR 0x5C" and p: "set p \<inter> like_meta = {}"
    by (auto simp: like_meta_def)
  show ?case
  proof (cases s)
    case Nil
    with a show ?thesis by simp
  next
    case (Cons c s')
    with a Cons.IH [OF p, of s'] show ?thesis by auto
  qed
qed

lemma lower_char_meta: "lower_char c \<in> like_meta \<longleftrightarrow> c \<in> like_meta"
  by (auto simp: lower_char_def like_meta_def split: option.splits if_splits)

lemma lower_meta: "set (lower q) \<inter> like_meta = {} \<longleftrightarrow> set q \<inter> like_meta = {}"
  by (auto simp: lower_def lower_char_meta)

lemma lower_pattern: "lower (keyword_pattern q) = CHR ''%'' # lower q @ ''%''"
  by (simp add: lower_def keyword_pattern_def lower_char_def)

lemma ilike_contains:
  assumes "set q \<inter> like_meta = {}"
  shows "ilike s (keyword_pattern q) \<longleftrightarrow> (\<exists>pre post. lower s = pre @ lower q @ post)"
proof -
  from assms have m: "set (lower q) \<inter> like_meta = {}" by (simp add: lower_meta)
  have "ilike s (keyword_pattern q) \<longleftrightarrow>
          (\<exists>pre post. lower s = pre @ post \<and> like_match (lower q @ ''%'') post)"
    by (simp add: ilike_def lower_pattern like_match_percent)
  also have "\<dots> \<longleftrightarrow> (\<exists>pre post. lower s = pre @ lower q @ post)"
    by (auto simp: like_match_literal [OF m] like_match_any)
  finally show ?thesis .
qed


lemma shape_keyword_fields:
  "k_title (shape_keyword grp) = key_title (fst grp)"
  "k_summary (shape_keyword grp) = snd (snd (snd (fst grp)))"
  by (simp_all add: shape_keyword_def key_title_def split: prod.splits)

lemma search_movies_keyword_Inr:
  assumes "search_movies_keyword db q limit = Inr res"
  shows "res = map shape_keyword (take (nat limit)
           (sort_key (title_rank (keyword_pattern q))
              (sort_key (\<lambda>grp. key_title (fst grp))
                 (group_by (\<lambda>x. movie_key (fst (fst x)))
                    (filter (\<lambda>x. keyword_where (keyword_pattern q) (fst (fst x)))
                       (movies_mg_g db))))))"
  using assms
  by (auto simp: search_movies_keyword_def Let_def sql_limit_def split: if_splits)

lemma keyword_hits_contain:
  assumes res: "search_movies_keyword db q limit = Inr res"
    and q: "set q \<inter> like_meta = {}"
    and h: "h \<in> set res"
  shows "(\<exists>pre post. lower (k_title h) = pre @ lower q @ post)
       \<or> (\<exists>s pre post. k_summary h = Some s \<and> lower s = pre @ lower q @ post)"
proof -
  let ?rows = "filter (\<lambda>x. keyword_where (keyword_pattern q) (fst (fst x))) (movies_mg_g db)"
  let ?groups = "group_by (\<lambda>x. movie_key (fst (fst x))) ?rows"
  from h obtain grp where hg: "h = shape_keyword grp"
    and "grp \<in> set (take (nat limit) (sort_key (title_rank (keyword_pattern q))
                        (sort_key (\<lambda>grp. key_title (fst grp)) ?groups)))"
    unfolding search_movies_keyword_Inr [OF res] by auto
  then have "grp \<in> set ?groups" by (auto dest: in_set_takeD)
  from group_by_memD [OF this] obtain x where x: "x \<in> set ?rows"
    "movie_key (fst (fst x)) = fst grp" by blast
  define m where "m = fst (fst x)"
  from x(1) have w: "keyword_where (keyword_pattern q) m" by (simp add: m_def)
  from x(2) hg have t: "k_title h = title m" and s: "k_summary h = summary m"
    by (simp_all add: shape_keyword_fields movie_key_def key_title_def m_def [symmetric]
        flip: x(2))
  from w show ?thesis
    unfolding keyword_where_def
  proof
    assume "ilike (title m) (keyword_pattern q)"
    then show ?thesis by (simp add: ilike_contains [OF q] t)
  next
    assume "ilike_null (summary m) (keyword_pattern q)"
    then obtain u where "summary m = Some u" "ilike u (keyword_pattern q)"
      by (auto simp: ilike_null_def split: option.splits)
    then show ?thesis by (simp add: ilike_contains [OF q] s)
  qed
qed

lemma keyword_exact_title_first:
  assumes res: "search_movies_keyword db q limit = Inr res"
    and q: "set q \<inter> like_meta = {}"
    and i: "i < length res" "k_title (res ! i) = q"
    and j: "j < length res" "\<not> ilike (k_title (res ! j)) (keyword_pattern q)"
  shows "i < j"
proof (rule ccontr)
  assume "\<not> i < j"
  then have ji: "j \<le> i" by simp
  let ?ordered = "sort_key (title_rank (keyword_pattern q))
              (sort_key (\<lambda>grp. key_title (fst grp))
                 (group_by (\<lambda>x. movie_key (fst (fst x)))
                    (filter (\<lambda>x. keyword_where (keyword_pattern q) (fst (fst x)))
                       (movies_mg_g db))))"
  let ?page = "take (nat limit) ?ordered"
  have r: "res = map shape_keyword ?page" by (rule search_movies_keyword_Inr [OF res])
  with i j have len: "i < length ?page" "j < length ?page" by simp_all
  have "sorted (map (title_rank (keyword_pattern q)) ?ordered)" by (rule sorted_sort_key)
  then have "sorted (take (nat limit) (map (title_rank (keyword_pattern q)) ?ordered))"
    by (rule sorted_wrt_take)
  then have "sorted (map (title_rank (keyword_pattern q)) ?page)" by (simp add: take_map)
  from sorted_nth_mono [OF this ji] len
  have le: "title_rank (keyword_pattern q) (?page ! j) \<le> title_rank (keyword_pattern q) (?page ! i)"
    by simp
  have "lower q = [] @ lower q @ []" by simp
  then have "ilike q (keyword_pattern q)"
    unfolding ilike_contains [OF q] by blast
  with i(2) len(1) have "title_rank (keyword_pattern q) (?page ! i) = 0"
    by (simp add: r title_rank_def shape_keyword_fields)
  moreover from j(2) len(2) have "title_rank (keyword_pattern q) (?page ! j) = 1"
    by (simp add: r title_rank_def shape_keyword_fields)
  ultimately show False using le by simp
qed

end
